theory Spec2Isabelle
  imports Complex_Main
begin

section \<open>Python values used by the integration\<close>

text \<open>
  Exceptions are values. The handlers of the integration can meet \<open>ValueError\<close>
  (from \<open>float\<close>), \<open>IndexError\<close> (from \<open>[0]\<close>), \<open>KeyError\<close> (from a dict
  subscript) and \<open>ZeroDivisionError\<close> (from \<open>/\<close> on floats).
\<close>

datatype py_error = ValueError | IndexError | KeyError | ZeroDivisionError

text \<open>
  A Python \<open>float\<close>: a finite value, the two infinities, or not-a-number. A finite
  double is modelled by the rational number it denotes; rounding and the sign of zero
  are not modelled. \<open>str\<close> and \<open>bytes\<close> are both lists of \<open>char\<close>.
\<close>

datatype pyfloat = Fin rat | PosInf | NegInf | NaN

type_synonym bytes = string

text \<open>\<open>a < b\<close> on floats: every comparison with not-a-number is false.\<close>

fun flt :: "pyfloat \<Rightarrow> pyfloat \<Rightarrow> bool" where
  "flt NaN b = False"
| "flt a NaN = False"
| "flt (Fin x) (Fin y) = (x < y)"
| "flt (Fin x) PosInf = True"
| "flt (Fin x) NegInf = False"
| "flt PosInf b = False"
| "flt NegInf NegInf = False"
| "flt NegInf b = True"

text \<open>\<open>a > b\<close> on floats is \<open>b < a\<close>.\<close>

definition fgt :: "pyfloat \<Rightarrow> pyfloat \<Rightarrow> bool" where
  "fgt a b = flt b a"

text \<open>\<open>a <= b\<close> on floats.\<close>

fun fle :: "pyfloat \<Rightarrow> pyfloat \<Rightarrow> bool" where
  "fle NaN b = False"
| "fle a NaN = False"
| "fle (Fin x) (Fin y) = (x \<le> y)"
| "fle (Fin x) PosInf = True"
| "fle (Fin x) NegInf = False"
| "fle PosInf PosInf = True"
| "fle PosInf b = False"
| "fle NegInf b = True"

text \<open>
  The builtins \<open>min(a, b)\<close> and \<open>max(a, b)\<close>: the first argument is kept unless the
  second is strictly smaller (\<open>min\<close>) or strictly greater (\<open>max\<close>).
\<close>

definition py_min :: "pyfloat \<Rightarrow> pyfloat \<Rightarrow> pyfloat" where
  "py_min a b = (if flt b a then b else a)"

definition py_max :: "pyfloat \<Rightarrow> pyfloat \<Rightarrow> pyfloat" where
  "py_max a b = (if fgt b a then b else a)"

text \<open>\<open>a - b\<close> on floats.\<close>

fun fsub :: "pyfloat \<Rightarrow> pyfloat \<Rightarrow> pyfloat" where
  "fsub NaN b = NaN"
| "fsub a NaN = NaN"
| "fsub (Fin x) (Fin y) = Fin (x - y)"
| "fsub (Fin x) PosInf = NegInf"
| "fsub (Fin x) NegInf = PosInf"
| "fsub PosInf PosInf = NaN"
| "fsub PosInf b = PosInf"
| "fsub NegInf NegInf = NaN"
| "fsub NegInf b = NegInf"

text \<open>\<open>a / b\<close> on floats: a zero divisor raises, whatever the dividend.\<close>

fun fdiv :: "pyfloat \<Rightarrow> pyfloat \<Rightarrow> py_error + pyfloat" where
  "fdiv a (Fin y) =
     (if y = 0 then Inl ZeroDivisionError
      else (case a of
              Fin x \<Rightarrow> Inr (Fin (x / y))
            | PosInf \<Rightarrow> Inr (if 0 < y then PosInf else NegInf)
            | NegInf \<Rightarrow> Inr (if 0 < y then NegInf else PosInf)
            | NaN \<Rightarrow> Inr NaN))"
| "fdiv NaN b = Inr NaN"
| "fdiv a NaN = Inr NaN"
| "fdiv (Fin x) b = Inr (Fin 0)"
| "fdiv a b = Inr NaN"

subsection \<open>\<open>str.split\<close>, \<open>str.rstrip\<close> and subscripting\<close>

text \<open>\<open>s.split(c)\<close> for a separator of one character: never the empty list.\<close>

fun split_chr :: "char \<Rightarrow> string \<Rightarrow> string list" where
  "split_chr c [] = [[]]"
| "split_chr c (x # xs) =
     (if x = c then [] # split_chr c xs
      else (case split_chr c xs of
              [] \<Rightarrow> [[x]]
            | piece # pieces \<Rightarrow> (x # piece) # pieces))"

text \<open>\<open>xs[0]\<close>: raises \<open>IndexError\<close> on the empty list.\<close>

definition getitem0 :: "'a list \<Rightarrow> py_error + 'a" where
  "getitem0 xs = (case xs of [] \<Rightarrow> Inl IndexError | x # _ \<Rightarrow> Inr x)"

text \<open>\<open>s.rstrip(c)\<close> for one character: every trailing \<open>c\<close> is removed.\<close>

definition rstrip_chr :: "char \<Rightarrow> string \<Rightarrow> string" where
  "rstrip_chr c s = rev (dropWhile (\<lambda>x. x = c) (rev s))"

subsection \<open>The builtin \<open>float\<close> on a string\<close>

text \<open>
  \<open>float(s)\<close> for an ASCII string, after the grammar of the language reference:
  surrounding whitespace is dropped, then an optional sign, then \<open>inf\<close>,
  \<open>infinity\<close> or \<open>nan\<close> in any case, or a decimal number (digits, with single
  underscores between digits, an optional fraction and an optional exponent).
  Anything else raises \<open>ValueError\<close>. The value is exact: it is not rounded to a
  double, and a literal beyond the range of a double is not turned into an infinity.
\<close>

definition is_space :: "char \<Rightarrow> bool" where
  "is_space c = (c \<in> set [CHR '' '', CHR 0x09, CHR 0x0A, CHR 0x0B, CHR 0x0C, CHR 0x0D])"

definition strip :: "string \<Rightarrow> string" where
  "strip s = rev (dropWhile is_space (rev (dropWhile is_space s)))"

definition is_digit :: "char \<Rightarrow> bool" where
  "is_digit c = (c \<in> set ''0123456789'')"

definition digit_val :: "char \<Rightarrow> nat" where
  "digit_val c = length (takeWhile (\<lambda>d. d \<noteq> c) ''0123456789'')"

definition lower :: "char \<Rightarrow> char" where
  "lower c =
     (case map_of (zip ''ABCDEFGHIJKLMNOPQRSTUVWXYZ'' ''abcdefghijklmnopqrstuvwxyz'') c of
        None \<Rightarrow> c
      | Some l \<Rightarrow> l)"

text \<open>
  The digits that follow a first digit, \<open>(["_"] digit)*\<close>: the digits read and the
  rest of the input.
\<close>

fun more_digits :: "string \<Rightarrow> nat list \<times> string" where
  "more_digits [] = ([], [])"
| "more_digits [c] = (if is_digit c then ([digit_val c], []) else ([], [c]))"
| "more_digits (c # d # cs) =
     (if is_digit c then
        (case more_digits (d # cs) of (ds, r) \<Rightarrow> (digit_val c # ds, r))
      else if c = CHR ''_'' \<and> is_digit d then
        (case more_digits cs of (ds, r) \<Rightarrow> (digit_val d # ds, r))
      else ([], c # d # cs))"

text \<open>\<open>digitpart\<close>: at least one digit.\<close>

definition digitpart :: "string \<Rightarrow> (nat list \<times> string) option" where
  "digitpart s =
     (case s of
        [] \<Rightarrow> None
      | c # cs \<Rightarrow>
          if is_digit c then
            (case more_digits cs of (ds, r) \<Rightarrow> Some (digit_val c # ds, r))
          else None)"

text \<open>
  \<open>number\<close>: \<open>[digitpart] "." digitpart | digitpart ["."]\<close>, giving the digits
  before the point, the digits after it, and the rest of the input.
\<close>

definition number :: "string \<Rightarrow> (nat list \<times> nat list \<times> string) option" where
  "number s =
     (case digitpart s of
        Some (ip, r) \<Rightarrow>
          (case r of
             [] \<Rightarrow> Some (ip, [], r)
           | c # r' \<Rightarrow>
               if c = CHR ''.'' then
                 (case digitpart r' of
                    Some (fp, r'') \<Rightarrow> Some (ip, fp, r'')
                  | None \<Rightarrow> Some (ip, [], r'))
               else Some (ip, [], r))
      | None \<Rightarrow>
          (case s of
             [] \<Rightarrow> None
           | c # r' \<Rightarrow>
               if c = CHR ''.'' then
                 (case digitpart r' of
                    Some (fp, r'') \<Rightarrow> Some ([], fp, r'')
                  | None \<Rightarrow> None)
               else None))"

text \<open>An optional sign: \<open>True\<close> for a minus.\<close>

definition sign :: "string \<Rightarrow> bool \<times> string" where
  "sign s =
     (case s of
        [] \<Rightarrow> (False, s)
      | c # cs \<Rightarrow>
          if c = CHR ''-'' then (True, cs)
          else if c = CHR ''+'' then (False, cs)
          else (False, s))"

text \<open>
  \<open>exponent\<close>: nothing, or \<open>("e" | "E") [sign] digitpart\<close> up to the end of the
  input. \<open>None\<close> when the rest of the input is neither.
\<close>

definition exponent :: "string \<Rightarrow> int option" where
  "exponent s =
     (case s of
        [] \<Rightarrow> Some 0
      | c # cs \<Rightarrow>
          if lower c = CHR ''e'' then
            (case sign cs of
               (neg, r) \<Rightarrow>
                 (case digitpart r of
                    Some (ds, []) \<Rightarrow>
                      Some (let n = int (foldl (\<lambda>a d. 10 * a + d) 0 ds)
                            in if neg then - n else n)
                  | _ \<Rightarrow> None))
          else None)"

definition scale10 :: "nat \<Rightarrow> int \<Rightarrow> rat" where
  "scale10 m k = (if 0 \<le> k then of_nat m * 10 ^ nat k else of_nat m / 10 ^ nat (- k))"

definition py_float :: "string \<Rightarrow> py_error + pyfloat" where
  "py_float s =
     (case sign (strip s) of
        (neg, body) \<Rightarrow>
          if map lower body = ''inf'' \<or> map lower body = ''infinity'' then
            Inr (if neg then NegInf else PosInf)
          else if map lower body = ''nan'' then Inr NaN
          else
            (case number body of
               None \<Rightarrow> Inl ValueError
             | Some (ip, fp, r) \<Rightarrow>
                 (case exponent r of
                    None \<Rightarrow> Inl ValueError
                  | Some e \<Rightarrow>
                      (let m = foldl (\<lambda>a d. 10 * a + d) 0 (ip @ fp);
                           v = scale10 m (e - int (length fp))
                       in Inr (Fin (if neg then - v else v))))))"

section \<open>Constants of the integration (\<open>const.py\<close>)\<close>

datatype Configuration = NAME | TOPIC | DESCRIPTION

fun Configuration_value :: "Configuration \<Rightarrow> string" where
  "Configuration_value NAME = ''name''"
| "Configuration_value TOPIC = ''topic''"
| "Configuration_value DESCRIPTION = ''description''"

datatype TopLevelTopic =
    SSNC | CORE | REMOTE | PLAY_START | PLAY_RESUME | PLAY_END | PLAY_FLUSH | ACTIVE_END
  | ARTIST | ALBUM | TITLE | COVER | VOLUME | POSITION | DURATION | SEEK

fun TopLevelTopic_value :: "TopLevelTopic \<Rightarrow> string" where
  "TopLevelTopic_value SSNC = ''ssnc''"
| "TopLevelTopic_value CORE = ''core''"
| "TopLevelTopic_value REMOTE = ''remote''"
| "TopLevelTopic_value PLAY_START = ''play_start''"
| "TopLevelTopic_value PLAY_RESUME = ''play_resume''"
| "TopLevelTopic_value PLAY_END = ''play_end''"
| "TopLevelTopic_value PLAY_FLUSH = ''play_flush''"
| "TopLevelTopic_value ACTIVE_END = ''active_end''"
| "TopLevelTopic_value ARTIST = ''artist''"
| "TopLevelTopic_value ALBUM = ''album''"
| "TopLevelTopic_value TITLE = ''title''"
| "TopLevelTopic_value COVER = ''cover''"
| "TopLevelTopic_value VOLUME = ''volume''"
| "TopLevelTopic_value POSITION = ''position''"
| "TopLevelTopic_value DURATION = ''duration''"
| "TopLevelTopic_value SEEK = ''seek''"

datatype Command =
    PLAY | PAUSE | STOP | SKIP_NEXT | SKIP_PREVIOUS | VOLUME_UP | VOLUME_DOWN
  | SEEK_TO | SET_POSITION

text \<open>The members of a \<open>StrEnum\<close> are strings: \<open>str(cmd)\<close> is the member's value.\<close>

fun Command_value :: "Command \<Rightarrow> string" where
  "Command_value PLAY = ''play''"
| "Command_value PAUSE = ''pause''"
| "Command_value STOP = ''stop''"
| "Command_value SKIP_NEXT = ''nextitem''"
| "Command_value SKIP_PREVIOUS = ''previtem''"
| "Command_value VOLUME_UP = ''volumeup''"
| "Command_value VOLUME_DOWN = ''volumedown''"
| "Command_value SEEK_TO = ''seek_to''"
| "Command_value SET_POSITION = ''set_position''"

section \<open>The media player entity (\<open>media_player.py\<close>)\<close>

text \<open>The host's enumeration of media player states.\<close>

datatype MediaPlayerState = OFF | ON | IDLE | PLAYING | PAUSED | STANDBY | BUFFERING

text \<open>Shairport volume range: \<open>_MIN_DB\<close>, \<open>_MAX_DB\<close> and \<open>_DB_RANGE\<close>.\<close>

definition MIN_DB :: pyfloat where
  "MIN_DB = Fin (- 30)"

definition MAX_DB :: pyfloat where
  "MAX_DB = Fin 0"

definition DB_RANGE :: pyfloat where
  "DB_RANGE = fsub MAX_DB MIN_DB"

text \<open>
  The attributes of \<open>ShairportSyncMediaPlayer\<close>: the field \<open>self_x\<close> is the
  attribute \<open>self._x\<close> of the source.
\<close>

record entity =
  self_name :: string
  self_base_topic :: string
  self_description :: string
  self_state :: MediaPlayerState
  self_title :: "string option"
  self_artist :: "string option"
  self_album :: "string option"
  self_media_image :: "bytes option"
  self_volume_db :: "pyfloat option"
  self_duration :: "pyfloat option"
  self_position :: "pyfloat option"
  self_last_position_update :: "pyfloat option"
  self_remote_topic :: string

text \<open>
  The entity together with what it has handed to the host: the states written by
  \<open>async_write_ha_state\<close> (one snapshot of the entity per call, oldest first) and the
  messages passed to \<open>async_publish\<close> (topic and payload, oldest first).
\<close>

record world =
  player :: entity
  written :: "entity list"
  published :: "(string \<times> string) list"

text \<open>\<open>__init__\<close>: the base topic loses its trailing slashes, the status is idle.\<close>

definition init :: "string \<Rightarrow> string \<Rightarrow> string \<Rightarrow> entity" where
  "init name_arg base_topic description =
     \<lparr> self_name = name_arg,
       self_base_topic = rstrip_chr CHR ''/'' base_topic,
       self_description = description,
       self_state = IDLE,
       self_title = None,
       self_artist = None,
       self_album = None,
       self_media_image = None,
       self_volume_db = None,
       self_duration = None,
       self_position = None,
       self_last_position_update = None,
       self_remote_topic =
         rstrip_chr CHR ''/'' base_topic @ ''/'' @ TopLevelTopic_value SSNC @ ''/''
           @ TopLevelTopic_value REMOTE \<rparr>"

text \<open>The entity as the setup helpers hand it to the host: nothing written or published.\<close>

definition async_setup_entry :: "string \<Rightarrow> string \<Rightarrow> string \<Rightarrow> world" where
  "async_setup_entry name_arg base_topic description =
     \<lparr> player = init name_arg base_topic description, written = [], published = [] \<rparr>"

subsection \<open>Subscription callbacks\<close>

text \<open>A message as the host hands it to a callback.\<close>

record ReceiveMessage =
  topic :: string
  payload :: string

type_synonym callback = "ReceiveMessage \<Rightarrow> world \<Rightarrow> py_error + world"

definition async_write_ha_state :: "world \<Rightarrow> world" where
  "async_write_ha_state w = w\<lparr>written := written w @ [player w]\<rparr>"

text \<open>\<open>_set_state\<close>: entering idle clears the metadata, the artwork and the volume.\<close>

definition set_state :: "MediaPlayerState \<Rightarrow> world \<Rightarrow> world" where
  "set_state new w =
     (let e = (player w)\<lparr>self_state := new\<rparr>;
          e' = (if new = IDLE then
                  e\<lparr>self_title := None, self_artist := None, self_album := None,
                    self_media_image := None, self_volume_db := None\<rparr>
                else e)
      in async_write_ha_state (w\<lparr>player := e'\<rparr>))"

definition cb_play :: callback where
  "cb_play msg w = Inr (set_state PLAYING w)"

definition cb_pause :: callback where
  "cb_pause msg w = Inr (set_state PAUSED w)"

definition cb_stop :: callback where
  "cb_stop msg w = Inr (set_state IDLE w)"

text \<open>
  \<open>setattr(self, name, value)\<close> with a string value, for the attributes that
  \<open>_meta_updater\<close> is created for; another name does not touch the modelled fields.
\<close>

definition setattr :: "entity \<Rightarrow> string \<Rightarrow> string \<Rightarrow> entity" where
  "setattr e attr v =
     (if attr = ''_artist'' then e\<lparr>self_artist := Some v\<rparr>
      else if attr = ''_album'' then e\<lparr>self_album := Some v\<rparr>
      else if attr = ''_title'' then e\<lparr>self_title := Some v\<rparr>
      else e)"

definition meta_updater :: "string \<Rightarrow> callback" where
  "meta_updater attr msg w =
     Inr (async_write_ha_state (w\<lparr>player := setattr (player w) (''_'' @ attr) (payload msg)\<rparr>))"

definition cb_art :: callback where
  "cb_art msg w =
     Inr (async_write_ha_state (w\<lparr>player := (player w)\<lparr>self_media_image := Some (payload msg)\<rparr>\<rparr>))"

text \<open>The body of the \<open>try\<close> in \<open>_cb_vol\<close>: \<open>float(msg.payload.split(",")[0])\<close>.\<close>

definition cb_vol_try :: "ReceiveMessage \<Rightarrow> py_error + pyfloat" where
  "cb_vol_try msg =
     (case getitem0 (split_chr CHR '','' (payload msg)) of
        Inl err \<Rightarrow> Inl err
      | Inr token \<Rightarrow> py_float token)"

text \<open>
  \<open>_cb_vol\<close>: \<open>ValueError\<close> and \<open>IndexError\<close> end the callback with nothing done,
  any other exception leaves it; a parsed value is clamped with \<open>max\<close> and \<open>min\<close>.
\<close>

definition cb_vol :: callback where
  "cb_vol msg w =
     (case cb_vol_try msg of
        Inl err \<Rightarrow> if err = ValueError \<or> err = IndexError then Inr w else Inl err
      | Inr db \<Rightarrow>
          Inr (async_write_ha_state
                 (w\<lparr>player := (player w)\<lparr>self_volume_db :=
                                  Some (py_max (py_min db MAX_DB) MIN_DB)\<rparr>\<rparr>)))"

definition cb_position :: callback where
  "cb_position msg w = Inr w"

definition cb_duration :: callback where
  "cb_duration msg w = Inr w"

subsection \<open>The topic map and the dispatch of a message\<close>

definition ssnc_prefix :: "entity \<Rightarrow> string" where
  "ssnc_prefix e = self_base_topic e @ ''/'' @ TopLevelTopic_value SSNC"

definition core_prefix :: "entity \<Rightarrow> string" where
  "core_prefix e = ssnc_prefix e @ ''/'' @ TopLevelTopic_value CORE"

text \<open>The entries of \<open>topic_map\<close>, in the order of the source.\<close>

definition topic_map :: "entity \<Rightarrow> (string \<times> callback \<times> string option) list" where
  "topic_map e =
     [ (ssnc_prefix e @ ''/'' @ TopLevelTopic_value PLAY_START, cb_play, Some ''utf-8''),
       (ssnc_prefix e @ ''/'' @ TopLevelTopic_value PLAY_RESUME, cb_play, Some ''utf-8''),
       (ssnc_prefix e @ ''/'' @ TopLevelTopic_value PLAY_END, cb_pause, Some ''utf-8''),
       (ssnc_prefix e @ ''/'' @ TopLevelTopic_value PLAY_FLUSH, cb_pause, Some ''utf-8''),
       (ssnc_prefix e @ ''/'' @ TopLevelTopic_value ACTIVE_END, cb_stop, Some ''utf-8''),
       (ssnc_prefix e @ ''/'' @ TopLevelTopic_value COVER, cb_art, None),
       (ssnc_prefix e @ ''/'' @ TopLevelTopic_value VOLUME, cb_vol, Some ''utf-8''),
       (core_prefix e @ ''/'' @ TopLevelTopic_value ARTIST, meta_updater ''artist'', Some ''utf-8''),
       (core_prefix e @ ''/'' @ TopLevelTopic_value ALBUM, meta_updater ''album'', Some ''utf-8''),
       (core_prefix e @ ''/'' @ TopLevelTopic_value TITLE, meta_updater ''title'', Some ''utf-8''),
       (core_prefix e @ ''/'' @ TopLevelTopic_value POSITION, cb_position, Some ''utf-8''),
       (core_prefix e @ ''/'' @ TopLevelTopic_value DURATION, cb_duration, Some ''utf-8'') ]"

text \<open>A dict display: a later entry replaces an earlier one with the same key.\<close>

definition dict_of :: "('k \<times> 'v) list \<Rightarrow> ('k \<rightharpoonup> 'v)" where
  "dict_of kvs = map_of (rev kvs)"

text \<open>
  The host's dispatch once \<open>_subscribe_topics\<close> has subscribed every key of the
  topic map: a message goes to the callback subscribed to its topic, and a message on
  any other topic reaches no callback.
\<close>

definition deliver :: "string \<Rightarrow> string \<Rightarrow> world \<Rightarrow> py_error + world" where
  "deliver t p w =
     (case dict_of (topic_map (player w)) t of
        None \<Rightarrow> Inr w
      | Some (cb, enc) \<Rightarrow> cb \<lparr>topic = t, payload = p\<rparr> w)"

text \<open>A sequence of messages, delivered in order; an exception ends the run.\<close>

fun deliver_all :: "(string \<times> string) list \<Rightarrow> world \<Rightarrow> py_error + world" where
  "deliver_all [] w = Inr w"
| "deliver_all ((t, p) # ms) w =
     (case deliver t p w of
        Inl err \<Rightarrow> Inl err
      | Inr w' \<Rightarrow> deliver_all ms w')"

text \<open>The topic of an event or metadata field of this entity.\<close>

definition ssnc_topic :: "entity \<Rightarrow> TopLevelTopic \<Rightarrow> string" where
  "ssnc_topic e x = ssnc_prefix e @ ''/'' @ TopLevelTopic_value x"

definition core_topic :: "entity \<Rightarrow> TopLevelTopic \<Rightarrow> string" where
  "core_topic e x = core_prefix e @ ''/'' @ TopLevelTopic_value x"

subsection \<open>Properties read by the host\<close>

definition state :: "entity \<Rightarrow> MediaPlayerState" where
  "state e = self_state e"

definition media_title :: "entity \<Rightarrow> string option" where
  "media_title e = self_title e"

definition media_artist :: "entity \<Rightarrow> string option" where
  "media_artist e = self_artist e"

definition media_album_name :: "entity \<Rightarrow> string option" where
  "media_album_name e = self_album e"

text \<open>
  \<open>media_image_hash\<close>: \<open>None\<close> and the empty byte string are both false in the
  test of the source. The digest \<open>hashlib.md5(b).hexdigest()\<close> is a parameter.
\<close>

definition media_image_hash :: "(bytes \<Rightarrow> string) \<Rightarrow> entity \<Rightarrow> string option" where
  "media_image_hash md5_hexdigest e =
     (case self_media_image e of
        None \<Rightarrow> None
      | Some b \<Rightarrow> if b \<noteq> [] then Some (md5_hexdigest b) else None)"

definition volume_level :: "entity \<Rightarrow> py_error + pyfloat option" where
  "volume_level e =
     (case self_volume_db e of
        None \<Rightarrow> Inr None
      | Some db \<Rightarrow>
          (case fdiv (fsub db MIN_DB) DB_RANGE of
             Inl err \<Rightarrow> Inl err
           | Inr v \<Rightarrow> Inr (Some v)))"

datatype attr_value = AStr string | AFloat pyfloat

definition extra_state_attributes :: "entity \<Rightarrow> (string \<rightharpoonup> attr_value)" where
  "extra_state_attributes e =
     (let attrs = [''description'' \<mapsto> AStr (self_description e)];
          attrs = (case self_duration e of
                     None \<Rightarrow> attrs
                   | Some d \<Rightarrow> attrs(''duration'' \<mapsto> AFloat d));
          attrs = (case self_position e of
                     None \<Rightarrow> attrs
                   | Some p \<Rightarrow> attrs(''position'' \<mapsto> AFloat p))
      in attrs)"

subsection \<open>Commands\<close>

text \<open>\<open>_publish_cmd\<close>: one publish of \<open>str(cmd)\<close> to the remote-command topic.\<close>

definition publish_cmd :: "string \<Rightarrow> world \<Rightarrow> world" where
  "publish_cmd cmd w = w\<lparr>published := published w @ [(self_remote_topic (player w), cmd)]\<rparr>"

definition async_media_play :: "world \<Rightarrow> world" where
  "async_media_play w = publish_cmd (Command_value PLAY) w"

definition async_media_pause :: "world \<Rightarrow> world" where
  "async_media_pause w = publish_cmd (Command_value PAUSE) w"

definition async_media_stop :: "world \<Rightarrow> world" where
  "async_media_stop w = publish_cmd (Command_value STOP) w"

text \<open>
  Modelled from the spec: the bodies of \<open>async_media_next_track\<close> and
  \<open>async_media_previous_track\<close> are missing (the source ends inside the first of
  them). The spec has each command publish its fixed token once to the remote-command
  topic, \<open>nextitem\<close> and \<open>previtem\<close> for these two.
\<close>

definition async_media_next_track :: "world \<Rightarrow> world" where
  "async_media_next_track w = publish_cmd (Command_value SKIP_NEXT) w"

definition async_media_previous_track :: "world \<Rightarrow> world" where
  "async_media_previous_track w = publish_cmd (Command_value SKIP_PREVIOUS) w"

section \<open>The config flow (\<open>config_flow.py\<close>)\<close>

text \<open>
  \<open>CONF_NAME\<close> and \<open>CONF_TOPIC\<close> are the host's names of the two required keys.
\<close>

definition CONF_NAME :: string where
  "CONF_NAME = ''name''"

definition CONF_TOPIC :: string where
  "CONF_TOPIC = ''topic''"

text \<open>
  The keys of \<open>STEP_USER_DATA_SCHEMA\<close>, each of type \<open>str\<close>. The default of the
  optional key is an expression over a name that the module does not define; it is
  left out.
\<close>

datatype marker = Required string | Optional string

definition STEP_USER_DATA_SCHEMA :: "marker list" where
  "STEP_USER_DATA_SCHEMA = [Required CONF_NAME, Required CONF_TOPIC, Optional ''description'']"

datatype FlowResult =
    CreateEntry string "string \<rightharpoonup> string"
  | ShowForm string "marker list" "string \<rightharpoonup> string"

text \<open>\<open>d[k]\<close> on a dict: raises \<open>KeyError\<close> for a missing key.\<close>

definition getitem :: "('k \<rightharpoonup> 'v) \<Rightarrow> 'k \<Rightarrow> py_error + 'v" where
  "getitem d k = (case d k of None \<Rightarrow> Inl KeyError | Some v \<Rightarrow> Inr v)"

text \<open>
  \<open>ShairportSyncConfigFlow.async_step_user\<close>: \<open>CreateEntry title data\<close> is
  \<open>async_create_entry\<close>, \<open>ShowForm step_id data_schema errors\<close> is
  \<open>async_show_form\<close>.
\<close>

definition async_step_user :: "(string \<rightharpoonup> string) option \<Rightarrow> py_error + FlowResult" where
  "async_step_user user_input =
     (let errors = Map.empty in
      case user_input of
        Some ui \<Rightarrow>
          (case getitem ui CONF_NAME of
             Inl err \<Rightarrow> Inl err
           | Inr title \<Rightarrow> Inr (CreateEntry title ui))
      | None \<Rightarrow> Inr (ShowForm ''user'' STEP_USER_DATA_SCHEMA errors))"

section \<open>Observations used in the statements\<close>

text \<open>The status the host reads after one event message of the entity's own topics.\<close>

definition status_after :: "TopLevelTopic \<Rightarrow> string \<Rightarrow> world \<Rightarrow> py_error + MediaPlayerState" where
  "status_after x p w =
     (case deliver (ssnc_topic (player w) x) p w of
        Inl err \<Rightarrow> Inl err
      | Inr w' \<Rightarrow> Inr (state (player w')))"

text \<open>The statuses the host reads along a sequence of event messages, the first one included.\<close>

fun status_path :: "(TopLevelTopic \<times> string) list \<Rightarrow> world \<Rightarrow> py_error + MediaPlayerState list" where
  "status_path [] w = Inr [state (player w)]"
| "status_path ((x, p) # ms) w =
     (case deliver (ssnc_topic (player w) x) p w of
        Inl err \<Rightarrow> Inl err
      | Inr w' \<Rightarrow>
          (case status_path ms w' of
             Inl err \<Rightarrow> Inl err
           | Inr ss \<Rightarrow> Inr (state (player w) # ss)))"

text \<open>
  The step relation of the status as the spec lists it: idle to playing on
  \<open>play_start\<close> or \<open>play_resume\<close>, playing or paused to idle on \<open>active_end\<close>,
  playing to paused on \<open>play_end\<close> or \<open>play_flush\<close>, paused to playing on
  \<open>play_start\<close> or \<open>play_resume\<close>. It is compared with the steps of the source.
\<close>

definition spec_listed_step :: "MediaPlayerState \<Rightarrow> TopLevelTopic \<Rightarrow> MediaPlayerState \<Rightarrow> bool" where
  "spec_listed_step s x s' \<longleftrightarrow>
     (s = IDLE \<and> (x = PLAY_START \<or> x = PLAY_RESUME) \<and> s' = PLAYING)
     \<or> ((s = PLAYING \<or> s = PAUSED) \<and> x = ACTIVE_END \<and> s' = IDLE)
     \<or> (s = PLAYING \<and> (x = PLAY_END \<or> x = PLAY_FLUSH) \<and> s' = PAUSED)
     \<or> (s = PAUSED \<and> (x = PLAY_START \<or> x = PLAY_RESUME) \<and> s' = PLAYING)"

text \<open>The topics of the five event messages that the entity subscribes to.\<close>

definition event_topics :: "entity \<Rightarrow> string set" where
  "event_topics e =
     {ssnc_topic e PLAY_START, ssnc_topic e PLAY_RESUME, ssnc_topic e PLAY_END,
      ssnc_topic e PLAY_FLUSH, ssnc_topic e ACTIVE_END}"

text \<open>An entity set up with base topic \<open>shairport\<close>, and the same entity paused with a track.\<close>

definition kitchen :: world where
  "kitchen = async_setup_entry ''Kitchen'' ''shairport'' ''Shairport''"

definition kitchen_paused :: world where
  "kitchen_paused =
     kitchen\<lparr>player := (player kitchen)\<lparr>self_state := PAUSED, self_title := Some ''Song'',
                                        self_volume_db := Some (Fin (- 15))\<rparr>\<rparr>"

section \<open>Lemmas on the dispatch\<close>

text \<open>Every topic of the entity finds its callback in the topic map.\<close>

lemma dict_topic_map:
  "dict_of (topic_map e) (ssnc_topic e PLAY_START) = Some (cb_play, Some ''utf-8'')"
  "dict_of (topic_map e) (ssnc_topic e PLAY_RESUME) = Some (cb_play, Some ''utf-8'')"
  "dict_of (topic_map e) (ssnc_topic e PLAY_END) = Some (cb_pause, Some ''utf-8'')"
  "dict_of (topic_map e) (ssnc_topic e PLAY_FLUSH) = Some (cb_pause, Some ''utf-8'')"
  "dict_of (topic_map e) (ssnc_topic e ACTIVE_END) = Some (cb_stop, Some ''utf-8'')"
  "dict_of (topic_map e) (ssnc_topic e COVER) = Some (cb_art, None)"
  "dict_of (topic_map e) (ssnc_topic e VOLUME) = Some (cb_vol, Some ''utf-8'')"
  "dict_of (topic_map e) (core_topic e ARTIST) = Some (meta_updater ''artist'', Some ''utf-8'')"
  "dict_of (topic_map e) (core_topic e ALBUM) = Some (meta_updater ''album'', Some ''utf-8'')"
  "dict_of (topic_map e) (core_topic e TITLE) = Some (meta_updater ''title'', Some ''utf-8'')"
  "dict_of (topic_map e) (core_topic e POSITION) = Some (cb_position, Some ''utf-8'')"
  "dict_of (topic_map e) (core_topic e DURATION) = Some (cb_duration, Some ''utf-8'')"
  by (simp_all add: dict_of_def topic_map_def ssnc_topic_def core_topic_def
      ssnc_prefix_def core_prefix_def)

lemma topic_map_callbacks:
  assumes "dict_of (topic_map e) t = Some (cb, enc)"
  shows "cb \<in> {cb_play, cb_pause, cb_stop, cb_art, cb_vol, meta_updater ''artist'',
            meta_updater ''album'', meta_updater ''title'', cb_position, cb_duration}"
proof -
  from assms have "(t, cb, enc) \<in> set (rev (topic_map e))"
    unfolding dict_of_def by (rule map_of_SomeD)
  then show ?thesis
    by (auto simp: topic_map_def)
qed

lemma split_chr_not_Nil: "split_chr c s \<noteq> []"
  by (induction s) (auto split: list.splits)

lemma py_float_error: "py_float s = Inl err \<Longrightarrow> err = ValueError"
  by (auto simp: py_float_def Let_def split: prod.splits if_splits option.splits)

lemma cb_vol_try_error: "cb_vol_try msg = Inl err \<Longrightarrow> err = ValueError"
  using split_chr_not_Nil [of "CHR '',''" "payload msg"]
  by (auto simp: cb_vol_try_def getitem0_def split: list.splits sum.splits dest: py_float_error)


lemma cb_vol_total: "\<exists>w'. cb_vol msg w = Inr w'"
  by (auto simp: cb_vol_def split: sum.splits dest: cb_vol_try_error)

text \<open>What a message can do, whatever its topic.\<close>

lemma deliver_cases:
  obtains
    (ignored) "deliver t p w = Inr w"
  | (status) s where "s \<in> {PLAYING, PAUSED, IDLE}" "deliver t p w = Inr (set_state s w)"
  | (meta) a where "a \<in> {''artist'', ''album'', ''title''}"
      "deliver t p w = Inr (async_write_ha_state (w\<lparr>player := setattr (player w) (''_'' @ a) p\<rparr>))"
  | (art) "deliver t p w =
      Inr (async_write_ha_state (w\<lparr>player := (player w)\<lparr>self_media_image := Some p\<rparr>\<rparr>))"
  | (vol) v where "deliver t p w =
      Inr (async_write_ha_state (w\<lparr>player := (player w)\<lparr>self_volume_db := Some v\<rparr>\<rparr>))"
proof (cases "dict_of (topic_map (player w)) t")
  case None
  then have "deliver t p w = Inr w"
    by (simp add: deliver_def)
  then show ?thesis by (rule ignored)
next
  case (Some entry)
  obtain cb enc where entry: "entry = (cb, enc)"
    by (cases entry)
  let ?m = "\<lparr>topic = t, payload = p\<rparr>"
  have run: "deliver t p w = cb ?m w"
    using Some entry by (simp add: deliver_def)
  from Some entry have "dict_of (topic_map (player w)) t = Some (cb, enc)"
    by simp
  then have "cb \<in> {cb_play, cb_pause, cb_stop, cb_art, cb_vol,
      meta_updater ''artist'', meta_updater ''album'', meta_updater ''title'',
      cb_position, cb_duration}"
    by (rule topic_map_callbacks)
  then consider "cb = cb_play" | "cb = cb_pause" | "cb = cb_stop" | "cb = cb_art"
    | "cb = cb_vol" | "cb = meta_updater ''artist''" | "cb = meta_updater ''album''"
    | "cb = meta_updater ''title''" | "cb = cb_position" | "cb = cb_duration"
    by blast
  then show ?thesis
  proof cases
    case 1
    with run show ?thesis by (intro status [of PLAYING]) (simp_all add: cb_play_def)
  next
    case 2
    with run show ?thesis by (intro status [of PAUSED]) (simp_all add: cb_pause_def)
  next
    case 3
    with run show ?thesis by (intro status [of IDLE]) (simp_all add: cb_stop_def)
  next
    case 4
    with run show ?thesis by (intro art) (simp add: cb_art_def)
  next
    case 5
    show ?thesis
    proof (cases "cb_vol_try ?m")
      case (Inl err)
      then have "err = ValueError" by (rule cb_vol_try_error)
      with Inl run 5 have "deliver t p w = Inr w"
        by (simp add: cb_vol_def)
      then show ?thesis by (rule ignored)
    next
      case (Inr db)
      with run 5 show ?thesis
        by (intro vol [of "py_max (py_min db MAX_DB) MIN_DB"]) (simp add: cb_vol_def)
    qed
  next
    case 6
    with run show ?thesis by (intro meta [of "''artist''"]) (simp_all add: meta_updater_def)
  next
    case 7
    with run show ?thesis by (intro meta [of "''album''"]) (simp_all add: meta_updater_def)
  next
    case 8
    with run show ?thesis by (intro meta [of "''title''"]) (simp_all add: meta_updater_def)
  next
    case 9
    with run have "deliver t p w = Inr w" by (simp add: cb_position_def)
    then show ?thesis by (rule ignored)
  next
    case 10
    with run have "deliver t p w = Inr w" by (simp add: cb_duration_def)
    then show ?thesis by (rule ignored)
  qed
qed

lemma deliver_total: "\<exists>w'. deliver t p w = Inr w'"
  by (cases t p w rule: deliver_cases) auto


lemma deliver_frame:
  assumes "deliver t p w = Inr w'"
  shows "self_name (player w') = self_name (player w)"
    and "self_base_topic (player w') = self_base_topic (player w)"
    and "self_description (player w') = self_description (player w)"
    and "self_remote_topic (player w') = self_remote_topic (player w)"
    and "self_duration (player w') = self_duration (player w)"
    and "self_position (player w') = self_position (player w)"
    and "published w' = published w"
  using assms
  by (cases t p w rule: deliver_cases;
      auto simp: set_state_def async_write_ha_state_def setattr_def Let_def)+

lemma deliver_status:
  assumes "deliver t p w = Inr w'" "self_state (player w) \<in> {IDLE, PLAYING, PAUSED}"
  shows "self_state (player w') \<in> {IDLE, PLAYING, PAUSED}"
  using assms
  by (cases t p w rule: deliver_cases)
    (auto simp: set_state_def async_write_ha_state_def setattr_def Let_def)

lemma deliver_all_total: "\<exists>w'. deliver_all ms w = Inr w'"
proof (induction ms arbitrary: w)
  case Nil
  show ?case by simp
next
  case (Cons m ms)
  obtain t p where m: "m = (t, p)" by (cases m)
  obtain w1 where "deliver t p w = Inr w1"
    using deliver_total by blast
  with Cons [of w1] m show ?case by simp
qed

lemma deliver_all_frame:
  assumes "deliver_all ms w = Inr w'"
  shows "self_description (player w') = self_description (player w)
       \<and> self_remote_topic (player w') = self_remote_topic (player w)
       \<and> self_duration (player w') = self_duration (player w)
       \<and> self_position (player w') = self_position (player w)
       \<and> published w' = published w"
  using assms
proof (induction ms arbitrary: w)
  case Nil
  then show ?case by simp
next
  case (Cons m ms)
  obtain t p where m: "m = (t, p)" by (cases m)
  obtain w1 where w1: "deliver t p w = Inr w1"
    using deliver_total by blast
  with Cons.prems m have "deliver_all ms w1 = Inr w'" by simp
  from Cons.IH [OF this] deliver_frame [OF w1] show ?case by simp
qed

lemma deliver_all_status:
  assumes "deliver_all ms w = Inr w'" "self_state (player w) \<in> {IDLE, PLAYING, PAUSED}"
  shows "self_state (player w') \<in> {IDLE, PLAYING, PAUSED}"
  using assms
proof (induction ms arbitrary: w)
  case Nil
  then show ?case by simp
next
  case (Cons m ms)
  obtain t p where m: "m = (t, p)" by (cases m)
  obtain w1 where w1: "deliver t p w = Inr w1"
    using deliver_total by blast
  with Cons.prems m have "deliver_all ms w1 = Inr w'" by simp
  moreover from w1 Cons.prems(2) have "self_state (player w1) \<in> {IDLE, PLAYING, PAUSED}"
    by (rule deliver_status)
  ultimately show ?case by (rule Cons.IH)
qed

lemma deliver_event:
  "deliver (ssnc_topic (player w) PLAY_START) p w = Inr (set_state PLAYING w)"
  "deliver (ssnc_topic (player w) PLAY_RESUME) p w = Inr (set_state PLAYING w)"
  "deliver (ssnc_topic (player w) PLAY_END) p w = Inr (set_state PAUSED w)"
  "deliver (ssnc_topic (player w) PLAY_FLUSH) p w = Inr (set_state PAUSED w)"
  "deliver (ssnc_topic (player w) ACTIVE_END) p w = Inr (set_state IDLE w)"
  by (simp_all add: deliver_def dict_topic_map cb_play_def cb_pause_def cb_stop_def)

lemma set_state_status: "self_state (player (set_state s w)) = s"
  by (simp add: set_state_def async_write_ha_state_def Let_def)

lemma set_state_base_topic: "ssnc_topic (player (set_state s w)) x = ssnc_topic (player w) x"
  by (simp add: set_state_def async_write_ha_state_def Let_def ssnc_topic_def ssnc_prefix_def)

lemma status_after_event:
  "status_after PLAY_START p w = Inr PLAYING"
  "status_after PLAY_RESUME p w = Inr PLAYING"
  "status_after PLAY_END p w = Inr PAUSED"
  "status_after PLAY_FLUSH p w = Inr PAUSED"
  "status_after ACTIVE_END p w = Inr IDLE"
  by (simp_all add: status_after_def deliver_event state_def set_state_status)

lemma kitchen_topics:
  "ssnc_topic (player kitchen) x = ''shairport/ssnc/'' @ TopLevelTopic_value x"
  "core_topic (player kitchen) x = ''shairport/ssnc/core/'' @ TopLevelTopic_value x"
  by (simp_all add: kitchen_def async_setup_entry_def init_def rstrip_chr_def ssnc_topic_def
      core_topic_def ssnc_prefix_def core_prefix_def)

lemma kitchen_paused_topics:
  "ssnc_topic (player kitchen_paused) x = ''shairport/ssnc/'' @ TopLevelTopic_value x"
  by (simp add: kitchen_paused_def kitchen_def async_setup_entry_def init_def rstrip_chr_def
      ssnc_topic_def ssnc_prefix_def)

text \<open>A message on any topic but the five event topics leaves the status as it is.\<close>

lemma deliver_other_topic:
  assumes "t \<notin> event_topics (player w)"
  shows "\<exists>w'. deliver t p w = Inr w' \<and> self_state (player w') = self_state (player w)"
proof (cases "dict_of (topic_map (player w)) t")
  case None
  then show ?thesis
    by (simp add: deliver_def)
next
  case (Some entry)
  obtain cb enc where entry: "entry = (cb, enc)"
    by (cases entry)
  let ?m = "\<lparr>topic = t, payload = p\<rparr>"
  have run: "deliver t p w = cb ?m w"
    using Some entry by (simp add: deliver_def)
  from Some entry have "map_of (rev (topic_map (player w))) t = Some (cb, enc)"
    by (simp add: dict_of_def)
  then have "(t, cb, enc) \<in> set (rev (topic_map (player w)))"
    by (rule map_of_SomeD)
  with assms have "cb \<in> {cb_art, cb_vol, meta_updater ''artist'', meta_updater ''album'',
      meta_updater ''title'', cb_position, cb_duration}"
    by (auto simp: topic_map_def event_topics_def ssnc_topic_def)
  then consider "cb = cb_art" | "cb = cb_vol" | "cb = meta_updater ''artist''"
    | "cb = meta_updater ''album''" | "cb = meta_updater ''title''"
    | "cb = cb_position" | "cb = cb_duration"
    by blast
  then show ?thesis
  proof cases
    case 1
    with run show ?thesis by (simp add: cb_art_def async_write_ha_state_def)
  next
    case 2
    obtain w' where "cb_vol ?m w = Inr w'"
      using cb_vol_total by blast
    moreover from this have "self_state (player w') = self_state (player w)"
      by (auto simp: cb_vol_def async_write_ha_state_def split: sum.splits if_splits)
    ultimately show ?thesis
      using run 2 by simp
  next
    case 3
    with run show ?thesis by (simp add: meta_updater_def setattr_def async_write_ha_state_def)
  next
    case 4
    with run show ?thesis by (simp add: meta_updater_def setattr_def async_write_ha_state_def)
  next
    case 5
    with run show ?thesis by (simp add: meta_updater_def setattr_def async_write_ha_state_def)
  next
    case 6
    with run show ?thesis by (simp add: cb_position_def)
  next
    case 7
    with run show ?thesis by (simp add: cb_duration_def)
  qed
qed

section \<open>The status state machine\<close>

text \<open>
  Claim C3 says that the status evolves by the listed step relation. An idle entity
  that receives \<open>play_end\<close> becomes paused, and the listed relation has no step from
  idle to paused.
\<close>

theorem listed_steps_counterexample:
  "state (player kitchen) = IDLE
   \<and> status_after PLAY_END '''' kitchen = Inr PAUSED
   \<and> \<not> spec_listed_step IDLE PLAY_END PAUSED"
  by (simp add: status_after_event spec_listed_step_def)
    (simp add: kitchen_def async_setup_entry_def init_def state_def)

text \<open>
  Claim C3, amended. The status read by the host starts as idle; after any sequence of
  messages it is idle, playing or paused, and each of the three occurs. It evolves by
  these steps, taken from every status: \<open>play_start\<close> and \<open>play_resume\<close> give
  playing, \<open>play_end\<close> and \<open>play_flush\<close> give paused, \<open>active_end\<close> gives idle,
  and a message on any other topic leaves the status as it is. Every step of the listed
  relation is one of these steps.
\<close>

theorem status_steps_from_every_status:
  "state (player (async_setup_entry n b d)) = IDLE
   \<and> (\<exists>w'. deliver_all ms (async_setup_entry n b d) = Inr w'
           \<and> state (player w') \<in> {IDLE, PLAYING, PAUSED})
   \<and> (\<exists>ms w'. deliver_all ms (async_setup_entry n b d) = Inr w' \<and> state (player w') = PLAYING)
   \<and> (\<exists>ms w'. deliver_all ms (async_setup_entry n b d) = Inr w' \<and> state (player w') = PAUSED)
   \<and> status_after PLAY_START p w = Inr PLAYING
   \<and> status_after PLAY_RESUME p w = Inr PLAYING
   \<and> status_after PLAY_END p w = Inr PAUSED
   \<and> status_after PLAY_FLUSH p w = Inr PAUSED
   \<and> status_after ACTIVE_END p w = Inr IDLE
   \<and> (spec_listed_step (state (player w)) x s' \<longrightarrow> status_after x p w = Inr s')
   \<and> (t \<notin> event_topics (player w) \<longrightarrow>
        (\<exists>w'. deliver t p w = Inr w' \<and> state (player w') = state (player w)))"
proof -
  let ?w0 = "async_setup_entry n b d"
  have start: "state (player ?w0) = IDLE"
    by (simp add: async_setup_entry_def init_def state_def)
  obtain w' where run: "deliver_all ms ?w0 = Inr w'"
    using deliver_all_total by blast
  from start have "self_state (player ?w0) \<in> {IDLE, PLAYING, PAUSED}"
    by (simp add: state_def)
  with run have "self_state (player w') \<in> {IDLE, PLAYING, PAUSED}"
    by (rule deliver_all_status)
  with run have range: "\<exists>w'. deliver_all ms ?w0 = Inr w'
      \<and> state (player w') \<in> {IDLE, PLAYING, PAUSED}"
    by (simp add: state_def)
  have "deliver_all [(ssnc_topic (player ?w0) PLAY_START, [])] ?w0 = Inr (set_state PLAYING ?w0)"
    by (simp add: deliver_event)
  moreover have "state (player (set_state PLAYING ?w0)) = PLAYING"
    by (simp add: state_def set_state_status)
  ultimately have playing: "\<exists>ms w'. deliver_all ms ?w0 = Inr w' \<and> state (player w') = PLAYING"
    by blast
  have "deliver_all [(ssnc_topic (player ?w0) PLAY_END, [])] ?w0 = Inr (set_state PAUSED ?w0)"
    by (simp add: deliver_event)
  moreover have "state (player (set_state PAUSED ?w0)) = PAUSED"
    by (simp add: state_def set_state_status)
  ultimately have paused: "\<exists>ms w'. deliver_all ms ?w0 = Inr w' \<and> state (player w') = PAUSED"
    by blast
  have listed: "spec_listed_step (state (player w)) x s' \<longrightarrow> status_after x p w = Inr s'"
    by (auto simp: spec_listed_step_def status_after_event)
  have other: "t \<notin> event_topics (player w) \<longrightarrow>
      (\<exists>w'. deliver t p w = Inr w' \<and> state (player w') = state (player w))"
    using deliver_other_topic [of t w p] by (simp add: state_def)
  from start range playing paused listed other show ?thesis
    by (simp only: status_after_event simp_thms)
qed

text \<open>
  The amended C3 at an idle entity and a paused one: two listed steps, and a title
  message that leaves the status paused.
\<close>

theorem status_steps_from_every_status_witness:
  "state (player kitchen) = IDLE
   \<and> spec_listed_step (state (player kitchen)) PLAY_START PLAYING
   \<and> status_after PLAY_START '''' kitchen = Inr PLAYING
   \<and> state (player kitchen_paused) = PAUSED
   \<and> spec_listed_step (state (player kitchen_paused)) ACTIVE_END IDLE
   \<and> status_after ACTIVE_END '''' kitchen_paused = Inr IDLE
   \<and> ''shairport/ssnc/core/title'' \<notin> event_topics (player kitchen_paused)
   \<and> (\<exists>w'. deliver ''shairport/ssnc/core/title'' ''Song'' kitchen_paused = Inr w'
          \<and> state (player w') = PAUSED)"
proof -
  have idle: "state (player kitchen) = IDLE"
    by (simp add: kitchen_def async_setup_entry_def init_def state_def)
  have paused: "state (player kitchen_paused) = PAUSED"
    by (simp add: kitchen_paused_def state_def)
  from idle have l1: "spec_listed_step (state (player kitchen)) PLAY_START PLAYING"
    by (simp add: spec_listed_step_def)
  from paused have l2: "spec_listed_step (state (player kitchen_paused)) ACTIVE_END IDLE"
    by (simp add: spec_listed_step_def)
  have other: "''shairport/ssnc/core/title'' \<notin> event_topics (player kitchen_paused)"
    by (simp add: event_topics_def kitchen_paused_topics)
  note st = status_steps_from_every_status [where n = "''Kitchen''" and b = "''shairport''"
      and d = "''Shairport''" and ms = "[]" and p = "''''"]
  from st [where w = kitchen and x = PLAY_START and s' = PLAYING] l1
  have 1: "status_after PLAY_START '''' kitchen = Inr PLAYING"
    by blast
  from st [where w = kitchen_paused and x = ACTIVE_END and s' = IDLE] l2
  have 2: "status_after ACTIVE_END '''' kitchen_paused = Inr IDLE"
    by blast
  from status_steps_from_every_status [where w = kitchen_paused and p = "''Song''"
      and t = "''shairport/ssnc/core/title''"] other paused
  have 3: "\<exists>w'. deliver ''shairport/ssnc/core/title'' ''Song'' kitchen_paused = Inr w'
          \<and> state (player w') = PAUSED"
    by simp
  from idle paused l1 l2 other 1 2 3 show ?thesis
    by blast
qed

text \<open>
  Claim C9. The handlers set the status whatever the current one is: \<open>play_start\<close>
  and \<open>play_resume\<close> give playing, \<open>play_end\<close> and \<open>play_flush\<close> give paused,
  \<open>active_end\<close> gives idle. In particular \<open>play_end\<close> or \<open>play_flush\<close> received
  while idle gives paused, and \<open>play_start\<close> received while playing leaves playing.
\<close>

theorem handlers_ignore_current_status:
  "status_after PLAY_START p w = Inr PLAYING
   \<and> status_after PLAY_RESUME p w = Inr PLAYING
   \<and> status_after PLAY_END p w = Inr PAUSED
   \<and> status_after PLAY_FLUSH p w = Inr PAUSED
   \<and> status_after ACTIVE_END p w = Inr IDLE
   \<and> (state (player w) = IDLE \<longrightarrow>
        status_after PLAY_END p w = Inr PAUSED \<and> status_after PLAY_FLUSH p w = Inr PAUSED)
   \<and> (state (player w) = PLAYING \<longrightarrow> status_after PLAY_START p w = Inr PLAYING)"
  by (simp add: status_after_event)

text \<open>
  The two particular cases of C9 at an idle entity and at a playing one.
\<close>

theorem handlers_ignore_current_status_witness:
  "state (player kitchen) = IDLE
   \<and> status_after PLAY_END ''''  kitchen = Inr PAUSED
   \<and> status_after PLAY_FLUSH '''' kitchen = Inr PAUSED
   \<and> state (player (set_state PLAYING kitchen)) = PLAYING
   \<and> status_after PLAY_START '''' (set_state PLAYING kitchen) = Inr PLAYING"
proof -
  have idle: "state (player kitchen) = IDLE"
    by (simp add: kitchen_def async_setup_entry_def init_def state_def)
  have playing: "state (player (set_state PLAYING kitchen)) = PLAYING"
    by (simp add: state_def set_state_status)
  from handlers_ignore_current_status [where w = kitchen and p = "''''"] idle
  have 1: "status_after PLAY_END '''' kitchen = Inr PAUSED
      \<and> status_after PLAY_FLUSH '''' kitchen = Inr PAUSED"
    by blast
  from handlers_ignore_current_status [where w = "set_state PLAYING kitchen" and p = "''''"] playing
  have 2: "status_after PLAY_START '''' (set_state PLAYING kitchen) = Inr PLAYING"
    by blast
  from idle playing 1 2 show ?thesis
    by blast
qed

section \<open>Metadata and progress messages\<close>

text \<open>
  What the dispatch does with a metadata, artwork, volume or progress message.
\<close>

lemma deliver_meta:
  "deliver (core_topic (player w) ARTIST) p w =
     Inr (async_write_ha_state (w\<lparr>player := (player w)\<lparr>self_artist := Some p\<rparr>\<rparr>))"
  "deliver (core_topic (player w) ALBUM) p w =
     Inr (async_write_ha_state (w\<lparr>player := (player w)\<lparr>self_album := Some p\<rparr>\<rparr>))"
  "deliver (core_topic (player w) TITLE) p w =
     Inr (async_write_ha_state (w\<lparr>player := (player w)\<lparr>self_title := Some p\<rparr>\<rparr>))"
  by (simp_all add: deliver_def dict_topic_map meta_updater_def setattr_def)

lemma deliver_cover:
  "deliver (ssnc_topic (player w) COVER) p w =
     Inr (async_write_ha_state (w\<lparr>player := (player w)\<lparr>self_media_image := Some p\<rparr>\<rparr>))"
  by (simp add: deliver_def dict_topic_map cb_art_def)

lemma deliver_volume:
  "deliver (ssnc_topic (player w) VOLUME) p w = cb_vol \<lparr>topic = ssnc_topic (player w) VOLUME, payload = p\<rparr> w"
  by (simp add: deliver_def dict_topic_map)

lemma deliver_progress:
  "deliver (core_topic (player w) POSITION) p w = Inr w"
  "deliver (core_topic (player w) DURATION) p w = Inr w"
  by (simp_all add: deliver_def dict_topic_map cb_position_def cb_duration_def)

text \<open>
  Claim C7. A message on \<open>ssnc/core/artist\<close>, \<open>ssnc/core/album\<close> or
  \<open>ssnc/core/title\<close> replaces that one text field by the payload, unchanged, and
  writes the state once; no other field of the entity changes. After two title
  messages in a row the title is the second payload alone, and the entity differs from
  the one before both messages in the title only.
\<close>

theorem metadata_last_write_wins:
  "deliver (core_topic (player w) ARTIST) p w =
     Inr (async_write_ha_state (w\<lparr>player := (player w)\<lparr>self_artist := Some p\<rparr>\<rparr>))
   \<and> deliver (core_topic (player w) ALBUM) p w =
     Inr (async_write_ha_state (w\<lparr>player := (player w)\<lparr>self_album := Some p\<rparr>\<rparr>))
   \<and> deliver (core_topic (player w) TITLE) p w =
     Inr (async_write_ha_state (w\<lparr>player := (player w)\<lparr>self_title := Some p\<rparr>\<rparr>))
   \<and> (\<exists>w'. deliver_all [(core_topic (player w) TITLE, p), (core_topic (player w) TITLE, q)] w = Inr w'
          \<and> media_title (player w') = Some q
          \<and> player w' = (player w)\<lparr>self_title := Some q\<rparr>)"
proof -
  let ?w1 = "async_write_ha_state (w\<lparr>player := (player w)\<lparr>self_title := Some p\<rparr>\<rparr>)"
  have topic: "core_topic (player ?w1) TITLE = core_topic (player w) TITLE"
    by (simp add: async_write_ha_state_def core_topic_def core_prefix_def ssnc_prefix_def)
  have "deliver (core_topic (player w) TITLE) q ?w1 =
      Inr (async_write_ha_state (?w1\<lparr>player := (player ?w1)\<lparr>self_title := Some q\<rparr>\<rparr>))"
    using deliver_meta(3) [of ?w1 q] by (simp only: topic)
  then have "\<exists>w'. deliver_all [(core_topic (player w) TITLE, p), (core_topic (player w) TITLE, q)] w = Inr w'
          \<and> media_title (player w') = Some q
          \<and> player w' = (player w)\<lparr>self_title := Some q\<rparr>"
    by (simp add: deliver_meta media_title_def async_write_ha_state_def)
  then show ?thesis
    by (simp only: deliver_meta simp_thms)
qed

text \<open>
  C7 at a paused entity with a volume: two titles in a row leave the second one, no
  artist, and the volume fraction one half.
\<close>

theorem metadata_last_write_wins_witness:
  "\<exists>w'. deliver_all [(''shairport/ssnc/core/title'', ''First''), (''shairport/ssnc/core/title'', ''Second'')]
          kitchen_paused = Inr w'
        \<and> media_title (player w') = Some ''Second''
        \<and> media_artist (player w') = None
        \<and> volume_level (player w') = Inr (Some (Fin (1 / 2)))"
proof -
  have topic: "core_topic (player kitchen_paused) TITLE = ''shairport/ssnc/core/title''"
    by (simp add: kitchen_paused_def kitchen_def async_setup_entry_def init_def rstrip_chr_def
        core_topic_def core_prefix_def ssnc_prefix_def)
  from metadata_last_write_wins [of kitchen_paused "''First''" "''Second''"]
  obtain w' where run: "deliver_all [(core_topic (player kitchen_paused) TITLE, ''First''),
        (core_topic (player kitchen_paused) TITLE, ''Second'')] kitchen_paused = Inr w'"
    and title: "media_title (player w') = Some ''Second''"
    and rest: "player w' = (player kitchen_paused)\<lparr>self_title := Some ''Second''\<rparr>"
    by blast
  from rest have "media_artist (player w') = None"
    by (simp add: media_artist_def kitchen_paused_def kitchen_def async_setup_entry_def init_def)
  moreover from rest have "volume_level (player w') = Inr (Some (Fin (1 / 2)))"
    by (simp add: volume_level_def kitchen_paused_def MIN_DB_def MAX_DB_def DB_RANGE_def)
  ultimately show ?thesis
    using run title by (simp only: topic) blast
qed

text \<open>
  Claim C8. A message on \<open>ssnc/core/position\<close> or \<open>ssnc/core/duration\<close> changes
  nothing: the entity, the states written and the messages published are the same
  afterwards. After any sequence of messages to an entity that was set up, the
  attributes read by the host hold the description and no other key.
\<close>

theorem progress_messages_discarded:
  "deliver (core_topic (player w) POSITION) p w = Inr w
   \<and> deliver (core_topic (player w) DURATION) p w = Inr w
   \<and> (\<exists>w'. deliver_all ms (async_setup_entry n b d) = Inr w'
          \<and> extra_state_attributes (player w') = [''description'' \<mapsto> AStr d]
          \<and> dom (extra_state_attributes (player w')) = {''description''})"
proof -
  let ?w0 = "async_setup_entry n b d"
  obtain w' where run: "deliver_all ms ?w0 = Inr w'"
    using deliver_all_total by blast
  from deliver_all_frame [OF run]
  have "self_description (player w') = d" "self_duration (player w') = None"
    "self_position (player w') = None"
    by (simp_all add: async_setup_entry_def init_def)
  then have "extra_state_attributes (player w') = [''description'' \<mapsto> AStr d]"
    by (simp add: extra_state_attributes_def)
  with run have "\<exists>w'. deliver_all ms ?w0 = Inr w'
      \<and> extra_state_attributes (player w') = [''description'' \<mapsto> AStr d]
      \<and> dom (extra_state_attributes (player w')) = {''description''}"
    by simp
  then show ?thesis
    by (simp only: deliver_progress simp_thms)
qed

text \<open>
  C8 at a paused entity: a position and a duration message both leave it as it was.
\<close>

theorem progress_messages_discarded_witness:
  "deliver ''shairport/ssnc/core/position'' ''12.5'' kitchen_paused = Inr kitchen_paused
   \<and> deliver ''shairport/ssnc/core/duration'' ''240'' kitchen_paused = Inr kitchen_paused"
proof -
  have topic: "core_topic (player kitchen_paused) x = ''shairport/ssnc/core/'' @ TopLevelTopic_value x" for x
    by (simp add: kitchen_paused_def kitchen_def async_setup_entry_def init_def rstrip_chr_def
        core_topic_def core_prefix_def ssnc_prefix_def)
  from progress_messages_discarded [where w = kitchen_paused and p = "''12.5''"]
    progress_messages_discarded [where w = kitchen_paused and p = "''240''"]
  show ?thesis
    by (simp add: topic)
qed

section \<open>From playing back to idle\<close>

text \<open>
  The statuses along the two messages of C4.
\<close>

lemma status_path_start_end:
  "status_path [(PLAY_START, p), (ACTIVE_END, q)] w = Inr [state (player w), PLAYING, IDLE]"
  by (simp add: deliver_event state_def set_state_status)

text \<open>
  Claim C4 says that from every state whose status is not idle, \<open>play_start\<close>
  followed by \<open>active_end\<close> takes the status along idle, playing, idle. At a paused
  entity the status is not idle, and the statuses read are paused, playing, idle.
\<close>

theorem play_start_active_end_counterexample:
  "state (player kitchen_paused) \<noteq> IDLE
   \<and> status_path [(PLAY_START, ''''), (ACTIVE_END, '''')] kitchen_paused = Inr [PAUSED, PLAYING, IDLE]
   \<and> status_path [(PLAY_START, ''''), (ACTIVE_END, '''')] kitchen_paused \<noteq> Inr [IDLE, PLAYING, IDLE]"
  by (simp only: status_path_start_end) (simp add: kitchen_paused_def state_def)

text \<open>
  Claim C4, amended. From every state, whatever its status, \<open>play_start\<close> followed
  by \<open>active_end\<close> takes the status to playing and then to idle; from an idle state
  the statuses read are idle, playing, idle. The step to idle clears title, artist,
  album, artwork and volume, and it writes the state exactly once, with all of them
  cleared in that one written state.
\<close>

theorem play_start_then_active_end:
  "\<exists>w1 w2.
     deliver (ssnc_topic (player w) PLAY_START) p w = Inr w1
     \<and> deliver (ssnc_topic (player w) ACTIVE_END) q w1 = Inr w2
     \<and> status_path [(PLAY_START, p), (ACTIVE_END, q)] w = Inr [state (player w), PLAYING, IDLE]
     \<and> (state (player w) = IDLE \<longrightarrow>
          status_path [(PLAY_START, p), (ACTIVE_END, q)] w = Inr [IDLE, PLAYING, IDLE])
     \<and> state (player w1) = PLAYING
     \<and> state (player w2) = IDLE
     \<and> media_title (player w2) = None
     \<and> media_artist (player w2) = None
     \<and> media_album_name (player w2) = None
     \<and> self_media_image (player w2) = None
     \<and> media_image_hash digest (player w2) = None
     \<and> self_volume_db (player w2) = None
     \<and> volume_level (player w2) = Inr None
     \<and> written w2 = written w1 @ [player w2]"
proof -
  let ?w1 = "set_state PLAYING w"
  let ?w2 = "set_state IDLE ?w1"
  have 1: "deliver (ssnc_topic (player w) PLAY_START) p w = Inr ?w1"
    by (rule deliver_event)
  have "deliver (ssnc_topic (player ?w1) ACTIVE_END) q ?w1 = Inr ?w2"
    by (rule deliver_event)
  then have 2: "deliver (ssnc_topic (player w) ACTIVE_END) q ?w1 = Inr ?w2"
    by (simp only: set_state_base_topic)
  have 3: "status_path [(PLAY_START, p), (ACTIVE_END, q)] w = Inr [state (player w), PLAYING, IDLE]"
    by (rule status_path_start_end)
  then have 4: "state (player w) = IDLE \<longrightarrow>
      status_path [(PLAY_START, p), (ACTIVE_END, q)] w = Inr [IDLE, PLAYING, IDLE]"
    by simp
  have 5: "state (player ?w1) = PLAYING" "state (player ?w2) = IDLE"
    by (simp_all add: state_def set_state_status)
  have 6: "media_title (player ?w2) = None" "media_artist (player ?w2) = None"
    "media_album_name (player ?w2) = None" "self_media_image (player ?w2) = None"
    "self_volume_db (player ?w2) = None"
    by (simp_all add: media_title_def media_artist_def media_album_name_def
        set_state_def [of IDLE] async_write_ha_state_def Let_def)
  from 6 have 7: "media_image_hash digest (player ?w2) = None" "volume_level (player ?w2) = Inr None"
    by (simp_all add: media_image_hash_def volume_level_def)
  have 8: "written ?w2 = written ?w1 @ [player ?w2]"
    by (simp add: set_state_def [of IDLE] async_write_ha_state_def Let_def)
  from 1 2 3 4 5 6 7 8 show ?thesis
    by blast
qed

text \<open>
  The amended C4 at an idle entity.
\<close>

theorem play_start_then_active_end_witness:
  "state (player kitchen) = IDLE
   \<and> status_path [(PLAY_START, ''''), (ACTIVE_END, '''')] kitchen = Inr [IDLE, PLAYING, IDLE]"
proof -
  have idle: "state (player kitchen) = IDLE"
    by (simp add: kitchen_def async_setup_entry_def init_def state_def)
  from play_start_then_active_end [of kitchen "''''" "''''"] idle
  show ?thesis
    by blast
qed

section \<open>Volume messages\<close>

text \<open>
  A token that \<open>float\<close> refuses ends \<open>_cb_vol\<close> with nothing done.
\<close>

lemma cb_vol_parse_failure:
  assumes "getitem0 (split_chr CHR '','' p) = Inr token" "py_float token = Inl err"
  shows "cb_vol \<lparr>topic = t, payload = p\<rparr> w = Inr w"
proof -
  from assms have "cb_vol_try \<lparr>topic = t, payload = p\<rparr> = Inl err"
    by (simp add: cb_vol_try_def)
  moreover from assms(2) have "err = ValueError"
    by (rule py_float_error)
  ultimately show ?thesis
    by (simp add: cb_vol_def)
qed

text \<open>
  Claim C5. When the leading comma-separated token of a \<open>ssnc/volume\<close> payload does
  not parse as a number, the message is dropped: the callback raises nothing, and the
  entity (its stored decibel value and so its volume fraction), the states written and
  the messages published are all as before.
\<close>

theorem malformed_volume_dropped:
  assumes "getitem0 (split_chr CHR '','' p) = Inr token" "py_float token = Inl err"
  shows "deliver (ssnc_topic (player w) VOLUME) p w = Inr w"
  using assms by (simp add: deliver_volume cb_vol_parse_failure)

lemma py_float_banana: "py_float ''banana'' = Inl ValueError"
  by (simp add: py_float_def sign_def strip_def is_space_def lower_def number_def
      digitpart_def is_digit_def)

text \<open>
  C5 at the payload \<open>banana\<close>: an entity with volume fraction one half keeps it, and
  an entity with no volume still has none.
\<close>

theorem malformed_volume_dropped_witness:
  "getitem0 (split_chr CHR '','' ''banana'') = Inr ''banana''
   \<and> py_float ''banana'' = Inl ValueError
   \<and> deliver ''shairport/ssnc/volume'' ''banana'' kitchen_paused = Inr kitchen_paused
   \<and> volume_level (player kitchen_paused) = Inr (Some (Fin (1 / 2)))
   \<and> deliver ''shairport/ssnc/volume'' ''banana'' kitchen = Inr kitchen
   \<and> volume_level (player kitchen) = Inr None"
proof -
  have tok: "getitem0 (split_chr CHR '','' ''banana'') = Inr ''banana''"
    by (simp add: getitem0_def)
  note bad = py_float_banana
  from malformed_volume_dropped [OF tok bad, of kitchen_paused]
  have 1: "deliver ''shairport/ssnc/volume'' ''banana'' kitchen_paused = Inr kitchen_paused"
    by (simp add: kitchen_paused_topics)
  from malformed_volume_dropped [OF tok bad, of kitchen]
  have 2: "deliver ''shairport/ssnc/volume'' ''banana'' kitchen = Inr kitchen"
    by (simp add: kitchen_topics)
  have 3: "volume_level (player kitchen_paused) = Inr (Some (Fin (1 / 2)))"
    by (simp add: volume_level_def kitchen_paused_def MIN_DB_def MAX_DB_def DB_RANGE_def)
  have 4: "volume_level (player kitchen) = Inr None"
    by (simp add: volume_level_def kitchen_def async_setup_entry_def init_def)
  from tok bad 1 2 3 4 show ?thesis
    by blast
qed

section \<open>Commands\<close>

text \<open>
  Claim C6. Each of the commands play, pause, stop, next track and previous track adds
  exactly one message to what was published, on the remote-command topic of the entity,
  with the token \<open>play\<close>, \<open>pause\<close>, \<open>stop\<close>, \<open>nextitem\<close> or
  \<open>previtem\<close>, and changes nothing else. For an entity set up with base topic \<open>b\<close>,
  after any sequence of inbound messages, that topic is \<open>b\<close> without its trailing
  slashes followed by \<open>/ssnc/remote\<close>, and a play command leaves that one message as
  the only one published.
\<close>

theorem commands_publish_one_token:
  "async_media_play w = w\<lparr>published := published w @ [(self_remote_topic (player w), ''play'')]\<rparr>
   \<and> async_media_pause w = w\<lparr>published := published w @ [(self_remote_topic (player w), ''pause'')]\<rparr>
   \<and> async_media_stop w = w\<lparr>published := published w @ [(self_remote_topic (player w), ''stop'')]\<rparr>
   \<and> async_media_next_track w =
       w\<lparr>published := published w @ [(self_remote_topic (player w), ''nextitem'')]\<rparr>
   \<and> async_media_previous_track w =
       w\<lparr>published := published w @ [(self_remote_topic (player w), ''previtem'')]\<rparr>
   \<and> (\<exists>w'. deliver_all ms (async_setup_entry n b d) = Inr w'
          \<and> self_remote_topic (player w') = rstrip_chr CHR ''/'' b @ ''/ssnc/remote''
          \<and> published (async_media_play w') = [(rstrip_chr CHR ''/'' b @ ''/ssnc/remote'', ''play'')])"
proof -
  let ?w0 = "async_setup_entry n b d"
  obtain w' where run: "deliver_all ms ?w0 = Inr w'"
    using deliver_all_total by blast
  from deliver_all_frame [OF run]
  have "self_remote_topic (player w') = rstrip_chr CHR ''/'' b @ ''/ssnc/remote''"
    and "published w' = []"
    by (simp_all add: async_setup_entry_def init_def)
  with run have "\<exists>w'. deliver_all ms ?w0 = Inr w'
      \<and> self_remote_topic (player w') = rstrip_chr CHR ''/'' b @ ''/ssnc/remote''
      \<and> published (async_media_play w') = [(rstrip_chr CHR ''/'' b @ ''/ssnc/remote'', ''play'')]"
    by (simp add: async_media_play_def publish_cmd_def)
  then show ?thesis
    by (simp add: async_media_play_def async_media_pause_def async_media_stop_def
        async_media_next_track_def async_media_previous_track_def publish_cmd_def)
qed

text \<open>
  C6 at the example entity: a play command, then a next-track command.
\<close>

theorem commands_publish_one_token_witness:
  "published (async_media_play kitchen) = [(''shairport/ssnc/remote'', ''play'')]
   \<and> published (async_media_next_track (async_media_play kitchen)) =
       [(''shairport/ssnc/remote'', ''play''), (''shairport/ssnc/remote'', ''nextitem'')]"
proof -
  have topic: "self_remote_topic (player kitchen) = ''shairport/ssnc/remote''"
    and none: "published kitchen = []"
    by (simp_all add: kitchen_def async_setup_entry_def init_def rstrip_chr_def)
  from commands_publish_one_token [where w = kitchen]
  have 1: "async_media_play kitchen =
      kitchen\<lparr>published := published kitchen @ [(self_remote_topic (player kitchen), ''play'')]\<rparr>"
    by blast
  from commands_publish_one_token [where w = "async_media_play kitchen"]
  have 2: "async_media_next_track (async_media_play kitchen) =
      (async_media_play kitchen)\<lparr>published := published (async_media_play kitchen)
         @ [(self_remote_topic (player (async_media_play kitchen)), ''nextitem'')]\<rparr>"
    by blast
  from 1 topic none have 3: "published (async_media_play kitchen) = [(''shairport/ssnc/remote'', ''play'')]"
    and 4: "self_remote_topic (player (async_media_play kitchen)) = ''shairport/ssnc/remote''"
    by simp_all
  from 2 3 4 show ?thesis
    by simp
qed

section \<open>The artwork hash\<close>

text \<open>
  Claim C10. The artwork hash is \<open>None\<close> for a new entity, and \<open>None\<close> after a
  \<open>ssnc/cover\<close> message whose payload is the empty byte string; after a cover message
  with a non-empty payload it is the digest of that payload. In general it is \<open>None\<close>
  when no artwork or the empty blob is stored, and the digest of a non-empty stored
  blob.
\<close>

theorem artwork_hash:
  "media_image_hash digest (init n b d) = None
   \<and> (\<exists>w'. deliver (ssnc_topic (player w) COVER) p w = Inr w'
          \<and> self_media_image (player w') = Some p
          \<and> media_image_hash digest (player w') = (if p = [] then None else Some (digest p)))
   \<and> (self_media_image e = None \<longrightarrow> media_image_hash digest e = None)
   \<and> (self_media_image e = Some [] \<longrightarrow> media_image_hash digest e = None)
   \<and> (self_media_image e = Some blob \<and> blob \<noteq> [] \<longrightarrow> media_image_hash digest e = Some (digest blob))"
  by (simp add: deliver_cover media_image_hash_def init_def async_write_ha_state_def)

text \<open>
  C10 at the example entity, with a digest function that marks its argument.
\<close>

theorem artwork_hash_witness:
  "self_media_image (player kitchen) = None
   \<and> media_image_hash (\<lambda>b. ''digest of '' @ b) (player kitchen) = None
   \<and> (\<exists>w'. deliver ''shairport/ssnc/cover'' '''' kitchen = Inr w'
          \<and> self_media_image (player w') = Some ''''
          \<and> media_image_hash (\<lambda>b. ''digest of '' @ b) (player w') = None)
   \<and> (\<exists>w'. deliver ''shairport/ssnc/cover'' ''JPEG'' kitchen = Inr w'
          \<and> self_media_image (player w') = Some ''JPEG''
          \<and> media_image_hash (\<lambda>b. ''digest of '' @ b) (player w') = Some ''digest of JPEG'')"
proof -
  let ?digest = "\<lambda>b. ''digest of '' @ b"
  have none: "self_media_image (player kitchen) = None"
    by (simp add: kitchen_def async_setup_entry_def init_def)
  from artwork_hash [where digest = "?digest" and e = "player kitchen"] none
  have 1: "media_image_hash ?digest (player kitchen) = None"
    by blast
  from artwork_hash [where digest = "?digest" and w = kitchen and p = "''''"]
  have 2: "\<exists>w'. deliver ''shairport/ssnc/cover'' '''' kitchen = Inr w'
          \<and> self_media_image (player w') = Some ''''
          \<and> media_image_hash ?digest (player w') = None"
    by (simp add: kitchen_topics)
  from artwork_hash [where digest = "?digest" and w = kitchen and p = "''JPEG''"]
  have 3: "\<exists>w'. deliver ''shairport/ssnc/cover'' ''JPEG'' kitchen = Inr w'
          \<and> self_media_image (player w') = Some ''JPEG''
          \<and> media_image_hash ?digest (player w') = Some ''digest of JPEG''"
    by (simp add: kitchen_topics)
  from none 1 2 3 show ?thesis
    by blast
qed

section \<open>The clamp of the volume\<close>

text \<open>
  Every parsed value other than not-a-number is stored within \<open>-30\<close> and \<open>0\<close>, and
  the volume fraction is then \<open>(c + 30) / 30\<close>, within \<open>0\<close> and \<open>1\<close>.
\<close>

lemma clamp_ordered:
  assumes "db \<noteq> NaN"
  shows "\<exists>c. py_max (py_min db MAX_DB) MIN_DB = Fin c \<and> - 30 \<le> c \<and> c \<le> 0"
  using assms by (cases db) (auto simp: py_max_def py_min_def fgt_def MAX_DB_def MIN_DB_def)

lemma volume_level_Fin:
  "self_volume_db e = Some (Fin c) \<Longrightarrow> volume_level e = Inr (Some (Fin ((c + 30) / 30)))"
  by (simp add: volume_level_def MIN_DB_def MAX_DB_def DB_RANGE_def)

lemma cb_vol_clamps:
  assumes "getitem0 (split_chr CHR '','' p) = Inr token" "py_float token = Inr db" "db \<noteq> NaN"
  shows "\<exists>w' c. deliver (ssnc_topic (player w) VOLUME) p w = Inr w'
      \<and> self_volume_db (player w') = Some (Fin c) \<and> - 30 \<le> c \<and> c \<le> 0
      \<and> volume_level (player w') = Inr (Some (Fin ((c + 30) / 30)))
      \<and> 0 \<le> (c + 30) / 30 \<and> (c + 30) / 30 \<le> 1"
proof -
  from assms(3) obtain c where c: "py_max (py_min db MAX_DB) MIN_DB = Fin c" "- 30 \<le> c" "c \<le> 0"
    using clamp_ordered by blast
  let ?w' = "async_write_ha_state (w\<lparr>player := (player w)\<lparr>self_volume_db := Some (Fin c)\<rparr>\<rparr>)"
  from assms(1,2) c(1) have "deliver (ssnc_topic (player w) VOLUME) p w = Inr ?w'"
    by (simp add: deliver_volume cb_vol_def cb_vol_try_def)
  moreover have db: "self_volume_db (player ?w') = Some (Fin c)"
    by (simp add: async_write_ha_state_def)
  moreover from db have "volume_level (player ?w') = Inr (Some (Fin ((c + 30) / 30)))"
    by (rule volume_level_Fin)
  moreover from c(2,3) have "0 \<le> (c + 30) / 30" "(c + 30) / 30 \<le> 1"
    by simp_all
  ultimately show ?thesis
    using c(2,3) by blast
qed

text \<open>The payload \<open>-15.0,0,0,0\<close> gives the volume fraction one half.\<close>

lemma volume_example:
  "\<exists>w'. deliver ''shairport/ssnc/volume'' ''-15.0,0,0,0'' kitchen = Inr w'
       \<and> self_volume_db (player w') = Some (Fin (- 15))
       \<and> volume_level (player w') = Inr (Some (Fin (1 / 2)))"
proof -
  have token: "getitem0 (split_chr CHR '','' ''-15.0,0,0,0'') = Inr ''-15.0''"
    by (simp add: getitem0_def)
  have parsed: "py_float ''-15.0'' = Inr (Fin (- 15))"
    by (simp add: py_float_def sign_def strip_def is_space_def lower_def number_def
        digitpart_def is_digit_def digit_val_def exponent_def scale10_def)
  let ?w' = "async_write_ha_state (kitchen\<lparr>player := (player kitchen)\<lparr>self_volume_db := Some (Fin (- 15))\<rparr>\<rparr>)"
  from token parsed have "deliver (ssnc_topic (player kitchen) VOLUME) ''-15.0,0,0,0'' kitchen = Inr ?w'"
    by (simp add: deliver_volume cb_vol_def cb_vol_try_def py_max_def py_min_def fgt_def
        MAX_DB_def MIN_DB_def)
  then have "deliver ''shairport/ssnc/volume'' ''-15.0,0,0,0'' kitchen = Inr ?w'"
    by (simp add: kitchen_topics)
  moreover have "self_volume_db (player ?w') = Some (Fin (- 15))"
    by (simp add: async_write_ha_state_def)
  moreover from this have "volume_level (player ?w') = Inr (Some (Fin (1 / 2)))"
    by (simp add: volume_level_Fin)
  ultimately show ?thesis
    by blast
qed

text \<open>
  \<open>float("nan")\<close> succeeds. Both comparisons of \<open>min\<close> and \<open>max\<close> are false on
  not-a-number, so it passes the clamp.
\<close>

lemma py_float_nan: "py_float ''nan'' = Inr NaN"
  by (simp add: py_float_def sign_def strip_def is_space_def lower_def)

text \<open>
  Claim C1 says that the stored decibel value lies between \<open>-30\<close> and \<open>0\<close> and the
  volume fraction between \<open>0\<close> and \<open>1\<close> whenever the leading token parses. At the
  payload \<open>nan\<close> the token parses, the stored value is not-a-number and so is the
  volume fraction: neither lies in its interval.
\<close>

theorem nan_volume_escapes_clamp:
  "\<exists>w'. deliver ''shairport/ssnc/volume'' ''nan'' kitchen = Inr w'
       \<and> self_volume_db (player w') = Some NaN
       \<and> \<not> (fle MIN_DB NaN \<and> fle NaN MAX_DB)
       \<and> volume_level (player w') = Inr (Some NaN)
       \<and> \<not> (fle (Fin 0) NaN \<and> fle NaN (Fin 1))"
proof -
  let ?w' = "async_write_ha_state (kitchen\<lparr>player := (player kitchen)\<lparr>self_volume_db := Some NaN\<rparr>\<rparr>)"
  have "getitem0 (split_chr CHR '','' ''nan'') = Inr ''nan''"
    by (simp add: getitem0_def)
  then have "cb_vol_try \<lparr>topic = t, payload = ''nan''\<rparr> = Inr NaN" for t
    by (simp add: cb_vol_try_def py_float_nan)
  then have "deliver (ssnc_topic (player kitchen) VOLUME) ''nan'' kitchen = Inr ?w'"
    by (simp add: deliver_volume cb_vol_def py_max_def py_min_def fgt_def MAX_DB_def MIN_DB_def)
  then have "deliver ''shairport/ssnc/volume'' ''nan'' kitchen = Inr ?w'"
    by (simp add: kitchen_topics)
  moreover have "self_volume_db (player ?w') = Some NaN"
    by (simp add: async_write_ha_state_def)
  moreover have "volume_level (player ?w') = Inr (Some NaN)"
    by (simp add: async_write_ha_state_def volume_level_def MIN_DB_def MAX_DB_def DB_RANGE_def)
  ultimately show ?thesis
    by simp
qed

section \<open>The config flow step\<close>

text \<open>
  Claim C2 says that a submission with an empty display name shows the form again and
  creates no entry. The step creates the entry, with the empty title.
\<close>

theorem async_step_user_counterexample:
  "async_step_user (Some [CONF_NAME \<mapsto> '''', CONF_TOPIC \<mapsto> ''shairport'']) =
     Inr (CreateEntry '''' [CONF_NAME \<mapsto> '''', CONF_TOPIC \<mapsto> ''shairport''])"
  by (simp add: async_step_user_def getitem_def CONF_NAME_def CONF_TOPIC_def)

text \<open>
  Claim C2, amended. Called without a submission, the step shows the form \<open>user\<close>
  with no error text. Called with a submission that holds a display name and a
  non-empty base topic, it creates an entry titled with the display name, whatever that
  name is, and stores the submission as it is.
\<close>

theorem async_step_user_creates_entry:
  "async_step_user None = Inr (ShowForm ''user'' STEP_USER_DATA_SCHEMA Map.empty)
   \<and> (ui CONF_NAME = Some title \<and> ui CONF_TOPIC = Some base \<and> base \<noteq> [] \<longrightarrow>
        async_step_user (Some ui) = Inr (CreateEntry title ui))"
  by (simp add: async_step_user_def getitem_def)

text \<open>
  The amended C2 at a submission with an empty display name and base topic
  \<open>shairport\<close>.
\<close>

theorem async_step_user_creates_entry_witness:
  "[CONF_NAME \<mapsto> '''', CONF_TOPIC \<mapsto> ''shairport''] CONF_NAME = Some ''''
   \<and> [CONF_NAME \<mapsto> '''', CONF_TOPIC \<mapsto> ''shairport''] CONF_TOPIC = Some ''shairport''
   \<and> ''shairport'' \<noteq> ''''
   \<and> async_step_user (Some [CONF_NAME \<mapsto> '''', CONF_TOPIC \<mapsto> ''shairport'']) =
       Inr (CreateEntry '''' [CONF_NAME \<mapsto> '''', CONF_TOPIC \<mapsto> ''shairport''])"
proof -
  let ?ui = "[CONF_NAME \<mapsto> '''', CONF_TOPIC \<mapsto> ''shairport'']"
  have 1: "?ui CONF_NAME = Some ''''" and 2: "?ui CONF_TOPIC = Some ''shairport''"
    by (simp_all add: CONF_NAME_def CONF_TOPIC_def)
  have 3: "''shairport'' \<noteq> ''''"
    by simp
  from async_step_user_creates_entry [of ?ui "''''" "''shairport''"] 1 2 3
  show ?thesis
    by blast
qed

end
